theory Spec2Isabelle
  imports Main
begin

section \<open>Data model (applications/models.py)\<close>

text \<open>
  Only the columns the services below read or write are kept. A timestamp is a number of
  seconds; \<open>pk\<close> is \<open>None\<close> on an object that has never been saved.
\<close>

type_synonym timestamp = nat

record application =
  pk :: "nat option"
  app_user :: nat
  app_job :: nat
  status :: string
  applied_date :: "timestamp option"
  application_method :: string

record job =
  job_pk :: nat
  job_url :: string

record application_activity =
  act_application :: "nat option"
  activity_type :: string
  description :: string
  created_by :: "nat option"

text \<open>
  The tables. \<open>activities\<close> is in insertion order: \<open>ApplicationActivity.objects.create\<close>
  appends at the end.
\<close>

record database =
  applications :: "application list"
  jobs :: "job list"
  activities :: "application_activity list"

definition STATUS_CHOICES :: "string list" where
  "STATUS_CHOICES =
     [''saved'', ''applied'', ''screening'', ''interview_scheduled'', ''interviewed'',
      ''offer'', ''rejected'', ''accepted'', ''withdrawn'']"

section \<open>Status tracker (applications/services/status_tracker.py)\<close>

definition VALID_TRANSITIONS :: "(string \<times> string list) list" where
  "VALID_TRANSITIONS =
     [(''saved'', [''applied'', ''withdrawn'']),
      (''applied'', [''screening'', ''interview_scheduled'', ''rejected'', ''withdrawn'']),
      (''screening'', [''interview_scheduled'', ''rejected'', ''withdrawn'']),
      (''interview_scheduled'', [''interviewed'', ''rejected'', ''withdrawn'']),
      (''interviewed'', [''offer'', ''rejected'', ''withdrawn'']),
      (''offer'', [''accepted'', ''rejected'', ''withdrawn'']),
      (''rejected'', []),
      (''accepted'', [''withdrawn'']),
      (''withdrawn'', [])]"

text \<open>\<open>VALID_TRANSITIONS.get(current_status, [])\<close>: a missing key gives the empty list.\<close>

definition get_available_transitions :: "string \<Rightarrow> string list" where
  "get_available_transitions current_status =
     (case map_of VALID_TRANSITIONS current_status of None \<Rightarrow> [] | Some allowed \<Rightarrow> allowed)"

definition is_valid_transition :: "string \<Rightarrow> string \<Rightarrow> bool" where
  "is_valid_transition current_status new_status =
     (if current_status = new_status then True
      else new_status \<in> set (get_available_transitions current_status))"

text \<open>
  The edge table as section 4.1 of the specification prints it, one pair per arrow;
  it is compared with \<open>is_valid_transition\<close> below.
\<close>

definition spec_table_edges :: "(string \<times> string) list" where
  "spec_table_edges =
     [(''saved'', ''applied''), (''saved'', ''withdrawn''),
      (''applied'', ''screening''), (''applied'', ''interview_scheduled''),
      (''applied'', ''rejected''), (''applied'', ''withdrawn''),
      (''screening'', ''interview_scheduled''), (''screening'', ''rejected''),
      (''screening'', ''withdrawn''),
      (''interview_scheduled'', ''interviewed''), (''interview_scheduled'', ''rejected''),
      (''interview_scheduled'', ''withdrawn''),
      (''interviewed'', ''offer''), (''interviewed'', ''rejected''),
      (''interviewed'', ''withdrawn''),
      (''offer'', ''accepted''), (''offer'', ''rejected''), (''offer'', ''withdrawn''),
      (''accepted'', ''withdrawn'')]"

definition table_edge :: "string \<Rightarrow> string \<Rightarrow> bool" where
  "table_edge x y = ((x, y) \<in> set spec_table_edges)"

subsection \<open>Signals and \<open>save\<close> (applications/signals.py)\<close>

definition create_activity :: "application_activity \<Rightarrow> database \<Rightarrow> database" where
  "create_activity act db = db\<lparr>activities := activities db @ [act]\<rparr>"

text \<open>\<open>Application.objects.get(pk=k)\<close>; \<open>None\<close> stands for \<open>DoesNotExist\<close>.\<close>

definition get_application :: "database \<Rightarrow> nat \<Rightarrow> application option" where
  "get_application db k = find (\<lambda>r. pk r = Some k) (applications db)"

text \<open>
  The \<open>pre_save\<close> receiver: it compares the instance with the stored row.
  \<open>if not instance.pk\<close> is true for \<open>None\<close> and for 0.
\<close>

definition log_status_change :: "application \<Rightarrow> database \<Rightarrow> database" where
  "log_status_change inst db =
     (case pk inst of
        None \<Rightarrow> db
      | Some k \<Rightarrow>
          if k = 0 then db
          else
            (case get_application db k of
               None \<Rightarrow> db
             | Some old_instance \<Rightarrow>
                 if status old_instance \<noteq> status inst then
                   create_activity
                     \<lparr>act_application = pk inst, activity_type = ''status_change'',
                      description =
                        ''Status changed from '' @ status old_instance @ '' to '' @ status inst,
                      created_by = Some (app_user inst)\<rparr> db
                 else db))"

text \<open>The \<open>post_save\<close> receiver.\<close>

definition log_application_created :: "application \<Rightarrow> bool \<Rightarrow> database \<Rightarrow> database" where
  "log_application_created inst created db =
     (if created then
        create_activity
          \<lparr>act_application = pk inst, activity_type = ''status_change'',
           description = ''Application created with status: '' @ status inst,
           created_by = Some (app_user inst)\<rparr> db
      else db)"

definition fresh_pk :: "database \<Rightarrow> nat" where
  "fresh_pk db =
     Suc (fold max (map (\<lambda>r. case pk r of None \<Rightarrow> 0 | Some k \<Rightarrow> k) (applications db)) 0)"

text \<open>
  \<open>Model.save()\<close> with both receivers connected (applications/apps.py imports the
  signals module in \<open>ready\<close>): the \<open>pre_save\<close> receiver runs, the row is updated
  or, when there is none, inserted, then the \<open>post_save\<close> receiver runs.
\<close>

definition save :: "application \<Rightarrow> database \<Rightarrow> application \<times> database" where
  "save inst db =
     (let db1 = log_status_change inst db in
      case pk inst of
        Some k \<Rightarrow>
          (case get_application db1 k of
             Some _ \<Rightarrow>
               (inst,
                log_application_created inst False
                  (db1\<lparr>applications :=
                     map (\<lambda>r. if pk r = Some k then inst else r) (applications db1)\<rparr>))
           | None \<Rightarrow>
               (inst,
                log_application_created inst True
                  (db1\<lparr>applications := applications db1 @ [inst]\<rparr>)))
      | None \<Rightarrow>
          (let inst1 = inst\<lparr>pk := Some (fresh_pk db1)\<rparr> in
           (inst1,
            log_application_created inst1 True
              (db1\<lparr>applications := applications db1 @ [inst1]\<rparr>))))"

subsection \<open>\<open>StatusTracker.transition\<close>\<close>

definition transition ::
  "application \<Rightarrow> string \<Rightarrow> nat option \<Rightarrow> string \<Rightarrow> database
     \<Rightarrow> bool \<times> application \<times> database" where
  "transition application new_status user notes db =
     (let current = status application in
      if \<not> is_valid_transition current new_status then (False, application, db)
      else
        (let old_status = status application;
             (application1, db1) = save (application\<lparr>status := new_status\<rparr>) db;
             description0 = ''Status changed from '' @ old_status @ '' to '' @ new_status;
             description1 =
               (if notes \<noteq> [] then description0 @ ''. Notes: '' @ notes else description0);
             db2 =
               create_activity
                 \<lparr>act_application = pk application1, activity_type = ''status_change'',
                  description = description1, created_by = user\<rparr> db1
         in (True, application1, db2)))"

section \<open>Application manager (applications/services/application_manager.py)\<close>

text \<open>
  \<open>str.strip()\<close>. A string is the list of the bytes of its UTF-8 encoding, so the
  white space characters of Python are the one-byte characters U+0009 to U+000D,
  U+001C to U+001F and U+0020, the two-byte U+0085 and U+00A0, and the three-byte
  U+1680, U+2000 to U+200A, U+2028, U+2029, U+202F, U+205F and U+3000.
\<close>

definition is_space1 :: "char \<Rightarrow> bool" where
  "is_space1 a =
     (a = CHR '' '' \<or> (9 \<le> (of_char a :: nat) \<and> (of_char a :: nat) \<le> 13)
      \<or> (28 \<le> (of_char a :: nat) \<and> (of_char a :: nat) \<le> 31))"

definition is_space2 :: "char \<Rightarrow> char \<Rightarrow> bool" where
  "is_space2 a b = (a = CHR 0xC2 \<and> (b = CHR 0x85 \<or> b = CHR 0xA0))"

definition is_space3 :: "char \<Rightarrow> char \<Rightarrow> char \<Rightarrow> bool" where
  "is_space3 a b c =
     ((a = CHR 0xE1 \<and> b = CHR 0x9A \<and> c = CHR 0x80)
      \<or> (a = CHR 0xE2 \<and> b = CHR 0x80
          \<and> ((0x80 \<le> (of_char c :: nat) \<and> (of_char c :: nat) \<le> 0x8A)
              \<or> c = CHR 0xA8 \<or> c = CHR 0xA9 \<or> c = CHR 0xAF))
      \<or> (a = CHR 0xE2 \<and> b = CHR 0x81 \<and> c = CHR 0x9F)
      \<or> (a = CHR 0xE3 \<and> b = CHR 0x80 \<and> c = CHR 0x80))"

text \<open>
  Dropping the white space at the front of a byte list; with \<open>backwards\<close> the list is
  a reversed string, whose characters have their bytes in reverse order.
\<close>

fun drop_space :: "bool \<Rightarrow> string \<Rightarrow> string" where
  "drop_space backwards (a # b # c # rest) =
     (if is_space1 a then drop_space backwards (b # c # rest)
      else if (if backwards then is_space2 b a else is_space2 a b)
        then drop_space backwards (c # rest)
      else if (if backwards then is_space3 c b a else is_space3 a b c)
        then drop_space backwards rest
      else a # b # c # rest)"
| "drop_space backwards [a, b] =
     (if is_space1 a then drop_space backwards [b]
      else if (if backwards then is_space2 b a else is_space2 a b) then []
      else [a, b])"
| "drop_space backwards [a] = (if is_space1 a then [] else [a])"
| "drop_space backwards [] = []"

definition strip :: "string \<Rightarrow> string" where
  "strip s = rev (drop_space True (rev (drop_space False s)))"

definition update_status ::
  "application \<Rightarrow> string \<Rightarrow> nat \<Rightarrow> string \<Rightarrow> timestamp \<Rightarrow> database
     \<Rightarrow> application \<times> database" where
  "update_status application new_status user notes now db =
     (let old_status = status application;
          application1 = application\<lparr>status := new_status\<rparr>;
          application2 =
            (if new_status = ''applied'' \<and> applied_date application1 = None
             then application1\<lparr>applied_date := Some now\<rparr> else application1);
          (application3, db1) = save application2 db;
          db2 =
            create_activity
              \<lparr>act_application = pk application3, activity_type = ''status_change'',
               description =
                 strip (''Status changed from '' @ old_status @ '' to '' @ new_status
                        @ ''. '' @ notes),
               created_by = Some user\<rparr> db1
      in (application3, db2))"

text \<open>\<open>Application.mark_as_applied\<close> (applications/models.py).\<close>

definition mark_as_applied :: "application \<Rightarrow> timestamp \<Rightarrow> database \<Rightarrow> application \<times> database" where
  "mark_as_applied self now db =
     save (self\<lparr>status := ''applied'', applied_date := Some now\<rparr>) db"

text \<open>
  \<open>check_duplicate\<close> takes a \<open>Job\<close> object or a URL string and tells them apart with
  \<open>isinstance\<close>. The filter \<open>job__job_url=url\<close> joins each application with its job row.
\<close>

datatype job_or_url = JobObject job | UrlString string

definition check_duplicate :: "database \<Rightarrow> nat \<Rightarrow> job_or_url \<Rightarrow> bool" where
  "check_duplicate db user x =
     (case x of
        UrlString url \<Rightarrow>
          if url = [] then False
          else list_ex
                 (\<lambda>a. app_user a = user \<and>
                      list_ex (\<lambda>j. job_pk j = app_job a \<and> job_url j = url) (jobs db))
                 (applications db)
      | JobObject j \<Rightarrow>
          list_ex (\<lambda>a. app_user a = user \<and> app_job a = job_pk j) (applications db))"

text \<open>
  Days are counted from the epoch. The settings have \<open>USE_TZ = True\<close> and
  \<open>TIME_ZONE = 'Africa/Johannesburg'\<close>, which is two hours ahead of UTC all year:
  \<open>timezone.now().date()\<close> is the date of the UTC datetime, and the lookup
  \<open>applied_date__date\<close> takes the date of the stored instant in the time zone of the
  settings.
\<close>

definition utc_date :: "timestamp \<Rightarrow> nat" where
  "utc_date t = t div 86400"

definition local_date :: "timestamp \<Rightarrow> nat" where
  "local_date t = (t + 7200) div 86400"

definition get_daily_application_count :: "database \<Rightarrow> nat \<Rightarrow> timestamp \<Rightarrow> nat" where
  "get_daily_application_count db user now =
     (let today = utc_date now in
      length
        (filter
           (\<lambda>a. app_user a = user
                \<and> (case applied_date a of None \<Rightarrow> False | Some t \<Rightarrow> local_date t = today)
                \<and> application_method a = ''automated'')
           (applications db)))"

text \<open>
  The daily count as section 4.2 of the specification words it: the applications of the
  user with method \<open>automated\<close> whose applied date falls on the given calendar day of
  the configured time zone. It is compared with \<open>get_daily_application_count\<close> below.
\<close>

definition spec_daily_automated_count :: "database \<Rightarrow> nat \<Rightarrow> nat \<Rightarrow> nat" where
  "spec_daily_automated_count db user day =
     length
       (filter
          (\<lambda>a. app_user a = user \<and> application_method a = ''automated''
               \<and> (case applied_date a of None \<Rightarrow> False | Some t \<Rightarrow> local_date t = day))
          (applications db))"

section \<open>Automation task (tasks/automation_tasks.py)\<close>

text \<open>Python's \<open>str\<close> of an integer, used by the f-string of the daily limit message.\<close>

fun str_nat :: "nat \<Rightarrow> string" where
  "str_nat n =
     (if n < 10 then [''0123456789'' ! n]
      else str_nat (n div 10) @ [''0123456789'' ! (n mod 10)])"

definition str_int :: "int \<Rightarrow> string" where
  "str_int i = (if i < 0 then CHR ''-'' # str_nat (nat (- i)) else str_nat (nat i))"

text \<open>
  A row of \<open>Document\<close>. \<open>file_path\<close> is the path of the stored file, and is empty
  for a row whose \<open>file\<close> field holds no file.
\<close>

record document =
  doc_pk :: int
  doc_user :: nat
  doc_type :: string
  is_active :: bool
  file_path :: string

type_synonym user_data = "(string \<times> string) list"

datatype site_handler = PNetHandler | Careers24Handler | LinkedInHandler | IndeedHandler

text \<open>\<open>_get_site_handler\<close>: \<open>None\<close> for a board that is not in the dictionary.\<close>

definition get_site_handler :: "string \<Rightarrow> site_handler option" where
  "get_site_handler job_board =
     map_of
       [(''pnet'', PNetHandler), (''careers24'', Careers24Handler),
        (''linkedin'', LinkedInHandler), (''indeed'', IndeedHandler)]
       job_board"

text \<open>
  What the task reads from outside: the tables (\<open>document_rows\<close> in the order of
  the model's \<open>Meta.ordering\<close>, newest first), the clock, the setting
  \<open>MAX_DAILY_APPLICATIONS\<close>, whether Chrome starts (\<open>Some msg\<close>: \<open>start_browser\<close>
  raises an exception whose text is \<open>msg\<close>), and what the site handler's
  \<open>apply_to_job\<close> does in the browser (\<open>Inl msg\<close>: it raises; \<open>Inr b\<close>: it returns
  \<open>b\<close>).
\<close>

record world =
  user_rows :: "nat list"
  profile_rows :: "(nat \<times> user_data) list"
  tables :: database
  document_rows :: "document list"
  time_now :: timestamp
  MAX_DAILY_APPLICATIONS :: int
  start_browser :: "string option"
  apply_to_job :: "site_handler \<Rightarrow> user_data \<Rightarrow> string \<Rightarrow> string \<Rightarrow> string + bool"

datatype exn = UserDoesNotExist | OtherException string

datatype event =
  BrowserStarted
  | BrowserStartFailed string
  | ApplyToJobCalled site_handler string string
  | ScreenshotTaken string
  | BrowserClosed

record task_result =
  success :: bool
  res_job_url :: string
  res_job_board :: string
  message :: string

text \<open>The dictionary \<open>result\<close> as the task first builds it.\<close>

definition initial_result :: "string \<Rightarrow> string \<Rightarrow> task_result" where
  "initial_result job_url' job_board =
     \<lparr>success = False, res_job_url = job_url', res_job_board = job_board, message = []\<rparr>"

text \<open>
  \<open>doc.file.path\<close>: on a field without a file Django raises \<open>ValueError\<close>, which
  neither the inner \<open>except Document.DoesNotExist\<close> nor \<open>except User.DoesNotExist\<close>
  catches.
\<close>

definition no_file_message :: string where
  "no_file_message =
     ''The '' @ [CHR 0x27] @ ''file'' @ [CHR 0x27] @ '' attribute has no file associated with it.''"

definition file_path_of :: "document \<Rightarrow> exn + string" where
  "file_path_of doc =
     (if file_path doc = [] then Inl (OtherException no_file_message)
      else Inr (file_path doc))"

text \<open>
  The CV path of the task: the document named by \<open>cv_id\<close> when it is the user's CV,
  otherwise the user's first active CV; \<open>None\<close> when there is neither.
  \<open>if cv_id\<close> is false for \<open>None\<close> and for 0, \<open>if not cv_path\<close> is true for
  \<open>None\<close> and for the empty string.
\<close>

definition falsy_path :: "string option \<Rightarrow> bool" where
  "falsy_path p = (case p of None \<Rightarrow> True | Some s \<Rightarrow> s = [])"

definition resolve_cv_path :: "world \<Rightarrow> nat \<Rightarrow> int option \<Rightarrow> exn + string option" where
  "resolve_cv_path w user cv_id =
     (case
        (case cv_id of
           None \<Rightarrow> Inr None
         | Some i \<Rightarrow>
             if i = 0 then Inr None
             else
               (case find (\<lambda>d. doc_pk d = i \<and> doc_user d = user \<and> doc_type d = ''cv'')
                       (document_rows w) of
                  None \<Rightarrow> Inr None
                | Some doc \<Rightarrow>
                    (case file_path_of doc of Inl e \<Rightarrow> Inl e | Inr path \<Rightarrow> Inr (Some path))))
      of
        Inl e \<Rightarrow> Inl e
      | Inr cv_path0 \<Rightarrow>
          if falsy_path cv_path0 then
            (case find (\<lambda>d. doc_user d = user \<and> doc_type d = ''cv'' \<and> is_active d)
                    (document_rows w) of
               None \<Rightarrow> Inr cv_path0
             | Some active_cv \<Rightarrow>
                 (case file_path_of active_cv of
                    Inl e \<Rightarrow> Inl e
                  | Inr path \<Rightarrow> Inr (Some path)))
          else Inr cv_path0)"

text \<open>
  The \<open>with BrowserManager(headless=True) as browser\<close> block. When \<open>start_browser\<close>
  raises in \<open>__enter__\<close> the block is not entered and \<open>__exit__\<close> does not run; when
  \<open>apply_to_job\<close> raises, \<open>__exit__\<close> closes the browser and the exception goes on.
\<close>

definition run_automation ::
  "world \<Rightarrow> site_handler \<Rightarrow> user_data \<Rightarrow> string \<Rightarrow> string \<Rightarrow> task_result
     \<Rightarrow> (exn + task_result) \<times> event list" where
  "run_automation w handler ud job_url' cv_path result =
     (case start_browser w of
        Some msg \<Rightarrow> (Inl (OtherException msg), [BrowserStartFailed msg])
      | None \<Rightarrow>
          (case apply_to_job w handler ud job_url' cv_path of
             Inl msg \<Rightarrow>
               (Inl (OtherException msg),
                [BrowserStarted, ApplyToJobCalled handler job_url' cv_path, BrowserClosed])
           | Inr ok \<Rightarrow>
               if ok then
                 (Inr (result\<lparr>success := True,
                               message := ''Application submitted successfully''\<rparr>),
                  [BrowserStarted, ApplyToJobCalled handler job_url' cv_path, BrowserClosed])
               else
                 (Inr (result\<lparr>message := ''Application submission could not be verified''\<rparr>),
                  [BrowserStarted, ApplyToJobCalled handler job_url' cv_path,
                   ScreenshotTaken ''failed_application'', BrowserClosed])))"

text \<open>
  The body of the \<open>try\<close> block of \<open>apply_to_job_task\<close>: the result dictionary it
  returns or the exception it raises, with the browser events in order.
\<close>

definition task_body ::
  "world \<Rightarrow> nat \<Rightarrow> string \<Rightarrow> string \<Rightarrow> int option \<Rightarrow> bool
     \<Rightarrow> (exn + task_result) \<times> event list" where
  "task_body w user_id job_url' job_board cv_id dry_run =
     (let result = initial_result job_url' job_board in
      if user_id \<notin> set (user_rows w) then (Inl UserDoesNotExist, [])
      else
        (case map_of (profile_rows w) user_id of
           None \<Rightarrow> (Inl (OtherException ''UserProfile matching query does not exist.''), [])
         | Some ud \<Rightarrow>
             if check_duplicate (tables w) user_id (UrlString job_url') then
               (Inr (result\<lparr>message := ''Already applied to this job''\<rparr>), [])
             else
               (let daily_count = get_daily_application_count (tables w) user_id (time_now w);
                    max_daily = MAX_DAILY_APPLICATIONS w
                in
                if int daily_count \<ge> max_daily then
                  (Inr (result\<lparr>message :=
                          ''Daily limit reached ('' @ str_int max_daily @ '' applications)''\<rparr>),
                   [])
                else
                  (case resolve_cv_path w user_id cv_id of
                     Inl e \<Rightarrow> (Inl e, [])
                   | Inr cv_path \<Rightarrow>
                       if falsy_path cv_path then
                         (Inr (result\<lparr>message := ''No CV found. Upload a CV first.''\<rparr>), [])
                       else if dry_run then
                         (Inr (result\<lparr>success := True,
                                       message :=
                                         ''Dry run completed - no application submitted''\<rparr>),
                          [])
                       else
                         (case get_site_handler job_board of
                            None \<Rightarrow>
                              (Inr (result\<lparr>message :=
                                      ''Unsupported job board: '' @ job_board\<rparr>),
                               [])
                          | Some handler \<Rightarrow>
                              run_automation w handler ud job_url' (the cv_path) result)))))"

text \<open>
  One execution of the task, as the decorator
  \<open>@shared_task(bind=True, max_retries=3, default_retry_delay=60)\<close> runs it:
  \<open>retries\<close> is \<open>self.request.retries\<close>. \<open>Retry d msg\<close> stands for
  \<open>raise self.retry(exc=exc)\<close>, which asks the worker to run the task again after
  \<open>d\<close> seconds. The third component is the database after the execution.
\<close>

definition max_retries :: nat where
  "max_retries = 3"

definition default_retry_delay :: nat where
  "default_retry_delay = 60"

datatype task_outcome = Returned task_result | Retry nat string

definition apply_to_job_task ::
  "world \<Rightarrow> nat \<Rightarrow> nat \<Rightarrow> string \<Rightarrow> string \<Rightarrow> int option \<Rightarrow> bool
     \<Rightarrow> task_outcome \<times> event list \<times> database" where
  "apply_to_job_task w retries user_id job_url' job_board cv_id dry_run =
     (let result = initial_result job_url' job_board in
      case task_body w user_id job_url' job_board cv_id dry_run of
        (Inr r, evs) \<Rightarrow> (Returned r, evs, tables w)
      | (Inl UserDoesNotExist, evs) \<Rightarrow>
          (Returned (result\<lparr>message := ''User not found''\<rparr>), evs, tables w)
      | (Inl (OtherException msg), evs) \<Rightarrow>
          if retries < max_retries then (Retry default_retry_delay msg, evs, tables w)
          else (Returned (result\<lparr>message := ''Task failed: '' @ msg\<rparr>), evs, tables w))"


section \<open>CAPTCHA gate (applications/automation/captcha_solver.py)\<close>








section \<open>Concrete inputs\<close>

text \<open>A stored application of user 7 for job 3, in a given status, with no applied date.\<close>

definition demo_application :: "string \<Rightarrow> application" where
  "demo_application s =
     \<lparr>pk = Some 12, app_user = 7, app_job = 3, status = s, applied_date = None,
      application_method = ''manual''\<rparr>"

definition demo_db :: "string \<Rightarrow> database" where
  "demo_db s =
     \<lparr>applications = [demo_application s],
      jobs = [\<lparr>job_pk = 3, job_url = ''https://www.pnet.co.za/jobs/1''\<rparr>],
      activities = []\<rparr>"

text \<open>
  User 7 has applied to job 3, which has no URL, and to job 4. Job 5 is another
  listing with the URL of job 4, and job 6 a listing of its own; user 7 has applied to
  neither.
\<close>

definition job3 :: job where
  "job3 = \<lparr>job_pk = 3, job_url = []\<rparr>"

definition job4 :: job where
  "job4 = \<lparr>job_pk = 4, job_url = ''https://www.pnet.co.za/jobs/4''\<rparr>"

definition job5 :: job where
  "job5 = \<lparr>job_pk = 5, job_url = ''https://www.pnet.co.za/jobs/4''\<rparr>"

definition job6 :: job where
  "job6 = \<lparr>job_pk = 6, job_url = ''https://www.pnet.co.za/jobs/6''\<rparr>"

definition application_for :: "nat \<Rightarrow> nat \<Rightarrow> nat \<Rightarrow> application" where
  "application_for k user j =
     \<lparr>pk = Some k, app_user = user, app_job = j, status = ''applied'', applied_date = None,
      application_method = ''manual''\<rparr>"

definition shapes_db :: database where
  "shapes_db =
     \<lparr>applications = [application_for 21 7 3, application_for 22 7 4],
      jobs = [job3, job4, job5, job6],
      activities = []\<rparr>"

text \<open>
  \<open>job.get('url', '')\<close> in \<open>run_automated_searches\<close>, for a search result given as
  a dictionary.
\<close>

definition found_job_url :: "(string \<times> string) list \<Rightarrow> string" where
  "found_job_url found = (case map_of found ''url'' of None \<Rightarrow> [] | Some u \<Rightarrow> u)"

text \<open>
  A world with user 7, a profile and an active CV for that user, given tables, a given
  daily maximum, a browser that starts or fails, and a site handler with a given outcome.
\<close>

definition demo_world :: "database \<Rightarrow> int \<Rightarrow> string option \<Rightarrow> string + bool \<Rightarrow> world" where
  "demo_world t m b outcome =
     \<lparr>user_rows = [7],
      profile_rows = [(7, [(''full_name'', ''Thabo Mokoena'')])],
      tables = t,
      document_rows =
        [\<lparr>doc_pk = 1, doc_user = 7, doc_type = ''cv'', is_active = True,
          file_path = ''cvs/user_7/cv.pdf''\<rparr>],
      time_now = 1700000000,
      MAX_DAILY_APPLICATIONS = m,
      start_browser = b,
      apply_to_job = (\<lambda>handler ud url cv. outcome)\<rparr>"



text \<open>
  User 7 holds one automated application, for job 6, stamped at 1699999940: 22:12:20 UTC
  on 14 November 2023, which is 00:12:20 on 15 November in Johannesburg. The clock of
  \<open>demo_world\<close> stands one minute later, at 22:13:20 UTC on the same day.
\<close>

definition capped_db :: database where
  "capped_db =
     \<lparr>applications =
        [\<lparr>pk = Some 31, app_user = 7, app_job = 6, status = ''applied'',
          applied_date = Some 1699999940, application_method = ''automated''\<rparr>],
      jobs = [job6],
      activities = []\<rparr>"




section \<open>The transition table\<close>

lemma get_available_transitions_simps:
  "get_available_transitions ''saved'' = [''applied'', ''withdrawn'']"
  "get_available_transitions ''applied'' =
     [''screening'', ''interview_scheduled'', ''rejected'', ''withdrawn'']"
  "get_available_transitions ''screening'' = [''interview_scheduled'', ''rejected'', ''withdrawn'']"
  "get_available_transitions ''interview_scheduled'' = [''interviewed'', ''rejected'', ''withdrawn'']"
  "get_available_transitions ''interviewed'' = [''offer'', ''rejected'', ''withdrawn'']"
  "get_available_transitions ''offer'' = [''accepted'', ''rejected'', ''withdrawn'']"
  "get_available_transitions ''rejected'' = []"
  "get_available_transitions ''accepted'' = [''withdrawn'']"
  "get_available_transitions ''withdrawn'' = []"
  by (simp_all add: get_available_transitions_def VALID_TRANSITIONS_def)

lemma table_edge_simps:
  "table_edge ''saved'' y \<longleftrightarrow> y \<in> set (get_available_transitions ''saved'')"
  "table_edge ''applied'' y \<longleftrightarrow> y \<in> set (get_available_transitions ''applied'')"
  "table_edge ''screening'' y \<longleftrightarrow> y \<in> set (get_available_transitions ''screening'')"
  "table_edge ''interview_scheduled'' y \<longleftrightarrow> y \<in> set (get_available_transitions ''interview_scheduled'')"
  "table_edge ''interviewed'' y \<longleftrightarrow> y \<in> set (get_available_transitions ''interviewed'')"
  "table_edge ''offer'' y \<longleftrightarrow> y \<in> set (get_available_transitions ''offer'')"
  "table_edge ''rejected'' y \<longleftrightarrow> y \<in> set (get_available_transitions ''rejected'')"
  "table_edge ''accepted'' y \<longleftrightarrow> y \<in> set (get_available_transitions ''accepted'')"
  "table_edge ''withdrawn'' y \<longleftrightarrow> y \<in> set (get_available_transitions ''withdrawn'')"
  unfolding table_edge_def spec_table_edges_def get_available_transitions_simps
  by simp_all

lemma status_choices_cases:
  assumes "old \<in> set STATUS_CHOICES"
  shows "old = ''saved'' \<or> old = ''applied'' \<or> old = ''screening''
    \<or> old = ''interview_scheduled'' \<or> old = ''interviewed'' \<or> old = ''offer''
    \<or> old = ''rejected'' \<or> old = ''accepted'' \<or> old = ''withdrawn''"
  using assms unfolding STATUS_CHOICES_def by simp

lemma table_edge_available:
  assumes "old \<in> set STATUS_CHOICES"
  shows "table_edge old y \<longleftrightarrow> y \<in> set (get_available_transitions old)"
  using status_choices_cases [OF assms]
  by (elim disjE) (simp_all only: table_edge_simps)

lemma valid_iff_edge_from:
  assumes "old \<in> set STATUS_CHOICES"
  shows "is_valid_transition old new \<longleftrightarrow> table_edge old new \<or> old = new"
  unfolding is_valid_transition_def table_edge_available [OF assms] by auto

text \<open>A status outside the table has no outgoing edge.\<close>

lemma available_outside_table:
  assumes "old \<notin> set STATUS_CHOICES"
  shows "get_available_transitions old = []"
  using assms
  by (simp add: get_available_transitions_def VALID_TRANSITIONS_def STATUS_CHOICES_def)

lemma available_is_edge:
  assumes "y \<in> set (get_available_transitions x)"
  shows "table_edge x y"
proof (cases "x \<in> set STATUS_CHOICES")
  case True
  with assms show ?thesis by (simp add: table_edge_available)
next
  case False
  with assms show ?thesis by (simp add: available_outside_table)
qed

lemma valid_transition_edge_or_same:
  assumes "is_valid_transition x y"
  shows "x = y \<or> table_edge x y"
  using assms by (auto simp: is_valid_transition_def intro: available_is_edge split: if_splits)

lemma terminal_no_exit:
  "is_valid_transition ''rejected'' new \<longleftrightarrow> new = ''rejected''"
  "is_valid_transition ''withdrawn'' new \<longleftrightarrow> new = ''withdrawn''"
  unfolding is_valid_transition_def get_available_transitions_simps by auto

text \<open>
  Claim C5. For the nine statuses of section 4.1, \<open>is_valid_transition old new\<close> holds
  exactly when \<open>(old, new)\<close> is an edge of the printed table or \<open>old = new\<close>; every
  identity pair is valid, and \<open>rejected\<close> and \<open>withdrawn\<close> have no valid move other
  than to themselves.
\<close>

theorem is_valid_transition_agrees_with_table:
  "(\<forall>old \<in> set STATUS_CHOICES. \<forall>new \<in> set STATUS_CHOICES.
      is_valid_transition old new \<longleftrightarrow> (table_edge old new \<or> old = new))
   \<and> (\<forall>s. is_valid_transition s s)
   \<and> (\<forall>new. is_valid_transition ''rejected'' new \<longleftrightarrow> new = ''rejected'')
   \<and> (\<forall>new. is_valid_transition ''withdrawn'' new \<longleftrightarrow> new = ''withdrawn'')"
proof (intro conjI ballI allI)
  fix old new
  assume "old \<in> set STATUS_CHOICES"
  then show "is_valid_transition old new \<longleftrightarrow> (table_edge old new \<or> old = new)"
    by (rule valid_iff_edge_from)
next
  fix s show "is_valid_transition s s" by (simp add: is_valid_transition_def)
qed (rule terminal_no_exit)+

theorem is_valid_transition_agrees_with_table_witness:
  "''saved'' \<in> set STATUS_CHOICES \<and> ''offer'' \<in> set STATUS_CHOICES
   \<and> ''applied'' \<in> set STATUS_CHOICES
   \<and> \<not> is_valid_transition ''saved'' ''offer''
   \<and> is_valid_transition ''saved'' ''applied''"
proof -
  have m: "''saved'' \<in> set STATUS_CHOICES" "''offer'' \<in> set STATUS_CHOICES"
    "''applied'' \<in> set STATUS_CHOICES"
    by (simp_all add: STATUS_CHOICES_def)
  have e: "\<not> table_edge ''saved'' ''offer''" "table_edge ''saved'' ''applied''"
    by (simp_all add: table_edge_def spec_table_edges_def)
  from is_valid_transition_agrees_with_table m e show ?thesis by simp
qed

section \<open>Saving and logging\<close>

lemma applications_create_activity [simp]:
  "applications (create_activity act db) = applications db"
  by (simp add: create_activity_def)

lemma activities_create_activity [simp]:
  "activities (create_activity act db) = activities db @ [act]"
  by (simp add: create_activity_def)

lemma get_application_create_activity [simp]:
  "get_application (create_activity act db) k = get_application db k"
  by (simp add: get_application_def)

lemma applications_log_status_change [simp]:
  "applications (log_status_change inst db) = applications db"
  by (simp add: log_status_change_def split: option.splits)

lemma get_application_log_status_change [simp]:
  "get_application (log_status_change inst db) k = get_application db k"
  by (simp add: get_application_def)

lemma find_map_replace:
  assumes "find (\<lambda>r. pk r = Some k) rows = Some row" and "pk inst = Some k"
  shows "find (\<lambda>r. pk r = Some k) (map (\<lambda>r. if pk r = Some k then inst else r) rows) = Some inst"
  using assms by (induction rows) (auto split: if_splits)

text \<open>The object that \<open>save\<close> leaves in memory: only a missing primary key is filled in.\<close>

lemma save_object:
  "fst (save inst db) =
     (case pk inst of Some k \<Rightarrow> inst | None \<Rightarrow> inst\<lparr>pk := Some (fresh_pk db)\<rparr>)"
  by (simp add: save_def Let_def log_status_change_def split: option.splits)

lemma status_save [simp]: "status (fst (save inst db)) = status inst"
  by (simp add: save_object split: option.splits)

lemma applied_date_save [simp]: "applied_date (fst (save inst db)) = applied_date inst"
  by (simp add: save_object split: option.splits)

lemma get_application_save:
  assumes "pk inst = Some k" and "get_application db k = Some row"
  shows "get_application (snd (save inst db)) k = Some inst"
proof -
  have "find (\<lambda>r. pk r = Some k) (applications db) = Some row"
    using assms(2) by (simp add: get_application_def)
  from find_map_replace [OF this assms(1)] assms show ?thesis
    by (simp add: save_def Let_def log_application_created_def get_application_def)
qed

section \<open>Status transitions\<close>

lemma transition_rejected:
  assumes "\<not> is_valid_transition (status a) new_status"
  shows "transition a new_status user notes db = (False, a, db)"
  using assms by (simp add: transition_def)

lemma transition_accepted:
  assumes "is_valid_transition (status a) new_status"
  shows "transition a new_status user notes db =
     (True, fst (save (a\<lparr>status := new_status\<rparr>) db),
      create_activity
        \<lparr>act_application = pk (fst (save (a\<lparr>status := new_status\<rparr>) db)),
         activity_type = ''status_change'',
         description =
           (if notes \<noteq> [] then
              ''Status changed from '' @ status a @ '' to '' @ new_status @ ''. Notes: '' @ notes
            else ''Status changed from '' @ status a @ '' to '' @ new_status),
         created_by = user\<rparr>
        (snd (save (a\<lparr>status := new_status\<rparr>) db)))"
  using assms by (simp add: transition_def Let_def split_beta)

lemma transition_status_step:
  "status (fst (snd (transition a new_status user notes db))) = status a
   \<or> table_edge (status a) (status (fst (snd (transition a new_status user notes db))))"
proof (cases "is_valid_transition (status a) new_status")
  case True
  from valid_transition_edge_or_same [OF True] show ?thesis
    by (auto simp: transition_accepted [OF True])
next
  case False
  then show ?thesis by (simp add: transition_rejected)
qed

lemma transition_stored_status_step:
  assumes "pk a = Some k" and "get_application db k = Some row" and "status row = status a"
  shows "\<exists>row'. get_application (snd (snd (transition a new_status user notes db))) k = Some row'
           \<and> (status row' = status row \<or> table_edge (status row) (status row'))"
proof (cases "is_valid_transition (status a) new_status")
  case True
  have "get_application (snd (save (a\<lparr>status := new_status\<rparr>) db)) k
          = Some (a\<lparr>status := new_status\<rparr>)"
    using assms by (intro get_application_save) simp_all
  with valid_transition_edge_or_same [OF True] assms(3) show ?thesis
    by (auto simp: transition_accepted [OF True])
next
  case False
  with assms show ?thesis by (simp add: transition_rejected)
qed

text \<open>\<open>transition\<close> never writes the applied date; \<open>update_status\<close> stamps it once.\<close>

text \<open>
  What \<open>transition\<close> leaves in the stored row of a saved application: the row as it
  was when the move is refused, the object when the move is made.
\<close>

lemma transition_stored_row:
  assumes "pk a = Some k" and "get_application db k = Some row"
  shows "get_application (snd (snd (transition a new_status user notes db))) k =
     Some (if fst (transition a new_status user notes db)
           then fst (snd (transition a new_status user notes db)) else row)"
proof (cases "is_valid_transition (status a) new_status")
  case True
  have "get_application (snd (save (a\<lparr>status := new_status\<rparr>) db)) k
          = Some (a\<lparr>status := new_status\<rparr>)"
    using assms by (intro get_application_save) simp_all
  moreover have "fst (save (a\<lparr>status := new_status\<rparr>) db) = a\<lparr>status := new_status\<rparr>"
    using assms(1) by (simp add: save_object)
  ultimately show ?thesis
    by (simp add: transition_accepted [OF True])
next
  case False
  with assms show ?thesis by (simp add: transition_rejected)
qed

lemma transition_keeps_applied_date:
  "applied_date (fst (snd (transition a new_status user notes db))) = applied_date a"
  by (cases "is_valid_transition (status a) new_status")
    (simp_all add: transition_accepted transition_rejected)

lemma update_status_applied_date:
  "applied_date (fst (update_status a new_status user notes now db)) =
     (if new_status = ''applied'' \<and> applied_date a = None then Some now else applied_date a)"
  by (simp add: update_status_def Let_def split_beta)

lemma update_status_status:
  "status (fst (update_status a new_status user notes now db)) = new_status"
  by (simp add: update_status_def Let_def split_beta)

lemma mark_as_applied_status:
  "status (fst (mark_as_applied a now db)) = ''applied''"
  by (simp add: mark_as_applied_def)

section \<open>The writers of the status, on the code\<close>

lemma demo_stored:
  "pk (demo_application s) = Some 12"
  "get_application (demo_db s) 12 = Some (demo_application s)"
  "status (demo_application s) = s"
  "applied_date (demo_application s) = None"
  by (simp_all add: demo_application_def demo_db_def get_application_def)

lemma demo_save:
  "save ((demo_application s)\<lparr>status := s'\<rparr>) (demo_db s) =
     (demo_application s',
      \<lparr>applications = [demo_application s'],
       jobs = [\<lparr>job_pk = 3, job_url = ''https://www.pnet.co.za/jobs/1''\<rparr>],
       activities =
         (if s \<noteq> s' then
            [\<lparr>act_application = Some 12, activity_type = ''status_change'',
              description = ''Status changed from '' @ s @ '' to '' @ s',
              created_by = Some 7\<rparr>]
          else [])\<rparr>)"
  by (simp add: save_def Let_def log_status_change_def log_application_created_def
      get_application_def create_activity_def demo_application_def demo_db_def)

text \<open>
  Claim C1, as amended. \<open>StatusTracker.transition\<close> checks the requested move against
  the status held by the application object it is given: it moves the status of the
  object along an edge of the table of section 4.1 or leaves it as it is. For a saved
  application it leaves the stored row as it was when it refuses the move, and writes
  the object over the stored row when it makes the move; so the stored row makes the
  same step along an edge, or none, whenever it held the status of the object before the
  call. \<open>ApplicationManager.update_status\<close> writes the requested status and
  \<open>Application.mark_as_applied\<close> writes \<open>applied\<close>, whatever the current status is.
\<close>

theorem status_writers_amended:
  "(status (fst (snd (transition a new_status user notes db))) = status a
      \<or> table_edge (status a) (status (fst (snd (transition a new_status user notes db)))))
   \<and> (pk a = Some k \<and> get_application db k = Some row \<longrightarrow>
        get_application (snd (snd (transition a new_status user notes db))) k =
          Some (if fst (transition a new_status user notes db)
                then fst (snd (transition a new_status user notes db)) else row))
   \<and> (pk a = Some k \<and> get_application db k = Some row \<and> status row = status a \<longrightarrow>
        (\<exists>row'. get_application (snd (snd (transition a new_status user notes db))) k = Some row'
           \<and> (status row' = status row \<or> table_edge (status row) (status row'))))
   \<and> status (fst (update_status a requested user' notes' now db)) = requested
   \<and> status (fst (mark_as_applied a now db)) = ''applied''"
proof (intro conjI impI)
  show "status (fst (snd (transition a new_status user notes db))) = status a
      \<or> table_edge (status a) (status (fst (snd (transition a new_status user notes db))))"
    by (rule transition_status_step)
next
  assume "pk a = Some k \<and> get_application db k = Some row"
  then show "get_application (snd (snd (transition a new_status user notes db))) k =
          Some (if fst (transition a new_status user notes db)
                then fst (snd (transition a new_status user notes db)) else row)"
    by (intro transition_stored_row) simp_all
next
  assume "pk a = Some k \<and> get_application db k = Some row \<and> status row = status a"
  then show "\<exists>row'. get_application (snd (snd (transition a new_status user notes db))) k
                 = Some row'
           \<and> (status row' = status row \<or> table_edge (status row) (status row'))"
    by (intro transition_stored_status_step) simp_all
next
  show "status (fst (update_status a requested user' notes' now db)) = requested"
    by (rule update_status_status)
next
  show "status (fst (mark_as_applied a now db)) = ''applied''"
    by (rule mark_as_applied_status)
qed

text \<open>
  At a stored application in status \<open>applied\<close> moved to \<open>screening\<close>: the row held the
  status of the object, and afterwards holds the object in status \<open>screening\<close>.
\<close>

theorem status_writers_amended_witness:
  "pk (demo_application ''applied'') = Some 12
   \<and> get_application (demo_db ''applied'') 12 = Some (demo_application ''applied'')
   \<and> status (demo_application ''applied'') = ''applied''
   \<and> fst (transition (demo_application ''applied'') ''screening'' None []
            (demo_db ''applied''))
   \<and> get_application
        (snd (snd (transition (demo_application ''applied'') ''screening'' None []
           (demo_db ''applied'')))) 12 = Some (demo_application ''screening'')
   \<and> (\<exists>row'. get_application
          (snd (snd (transition (demo_application ''applied'') ''screening'' None []
             (demo_db ''applied'')))) 12 = Some row'
        \<and> (status row' = ''applied'' \<or> table_edge ''applied'' (status row')))"
proof -
  have v: "is_valid_transition (status (demo_application ''applied'')) ''screening''"
    by (simp add: demo_stored is_valid_transition_def get_available_transitions_simps)
  have t: "fst (transition (demo_application ''applied'') ''screening'' None []
            (demo_db ''applied''))"
    and o: "fst (snd (transition (demo_application ''applied'') ''screening'' None []
            (demo_db ''applied''))) = demo_application ''screening''"
    unfolding transition_accepted [OF v] demo_save by simp_all
  from status_writers_amended [of "demo_application ''applied''" "''screening''" None "[]"
      "demo_db ''applied''" 12 "demo_application ''applied''"] t o
  show ?thesis
    by (simp add: demo_stored)
qed

text \<open>
  Claim C1 as stated fails: from \<open>rejected\<close>, which has no outgoing edge,
  \<open>mark_as_applied\<close> moves the object and the stored row to \<open>applied\<close>, and
  \<open>update_status\<close> moves them to \<open>offer\<close>. \<open>transition\<close> itself, given an object
  still in status \<open>saved\<close> whose stored row has become \<open>rejected\<close>, accepts the move
  to \<open>applied\<close> and takes the stored row from \<open>rejected\<close> to \<open>applied\<close>.
\<close>

theorem status_writers_counterexample:
  "status (fst (mark_as_applied (demo_application ''rejected'') 1000 (demo_db ''rejected'')))
     = ''applied''
   \<and> get_application
        (snd (mark_as_applied (demo_application ''rejected'') 1000 (demo_db ''rejected''))) 12
      = Some ((demo_application ''rejected'')\<lparr>status := ''applied'', applied_date := Some 1000\<rparr>)
   \<and> status (fst (update_status (demo_application ''rejected'') ''offer'' 7 [] 1000
        (demo_db ''rejected''))) = ''offer''
   \<and> \<not> table_edge ''rejected'' ''applied'' \<and> \<not> table_edge ''rejected'' ''offer''
   \<and> ''rejected'' \<noteq> ''applied'' \<and> ''rejected'' \<noteq> ''offer''
   \<and> get_application (demo_db ''rejected'') 12 = Some (demo_application ''rejected'')
   \<and> fst (transition (demo_application ''saved'') ''applied'' None [] (demo_db ''rejected''))
   \<and> get_application
        (snd (snd (transition (demo_application ''saved'') ''applied'' None []
           (demo_db ''rejected'')))) 12
      = Some (demo_application ''applied'')"
proof -
  have m: "get_application
        (snd (mark_as_applied (demo_application ''rejected'') 1000 (demo_db ''rejected''))) 12
      = Some ((demo_application ''rejected'')\<lparr>status := ''applied'', applied_date := Some 1000\<rparr>)"
    unfolding mark_as_applied_def
    by (rule get_application_save [OF _ demo_stored(2)]) (simp add: demo_stored)
  have v: "is_valid_transition (status (demo_application ''saved'')) ''applied''"
    by (simp add: demo_stored is_valid_transition_def get_available_transitions_simps)
  have t: "fst (transition (demo_application ''saved'') ''applied'' None [] (demo_db ''rejected''))"
    by (simp add: transition_accepted [OF v])
  have o: "fst (snd (transition (demo_application ''saved'') ''applied'' None []
             (demo_db ''rejected''))) = demo_application ''applied''"
    unfolding transition_accepted [OF v]
    by (simp add: save_object demo_application_def)
  have r: "get_application
        (snd (snd (transition (demo_application ''saved'') ''applied'' None []
           (demo_db ''rejected'')))) 12
      = Some (demo_application ''applied'')"
    using transition_stored_row [where a = "demo_application ''saved''"
        and db = "demo_db ''rejected''" and new_status = "''applied''" and user = None
        and ?notes = "[]", OF demo_stored(1) demo_stored(2)] t o
    by simp
  from m t r show ?thesis
    by (simp add: mark_as_applied_status update_status_status table_edge_simps
        get_available_transitions_simps demo_stored)
qed

text \<open>
  Claim C2 at a failing input: a stored application in status \<open>applied\<close> is moved to
  \<open>screening\<close>. The call succeeds and the activity log grows by two records, one
  written by the \<open>pre_save\<close> receiver inside \<open>save\<close> and one by \<open>transition\<close>.
\<close>

theorem transition_appends_two_activities:
  "transition (demo_application ''applied'') ''screening'' (Some 7) [] (demo_db ''applied'') =
     (True, demo_application ''screening'',
      \<lparr>applications = [demo_application ''screening''],
       jobs = [\<lparr>job_pk = 3, job_url = ''https://www.pnet.co.za/jobs/1''\<rparr>],
       activities =
         [\<lparr>act_application = Some 12, activity_type = ''status_change'',
           description = ''Status changed from applied to screening'', created_by = Some 7\<rparr>,
          \<lparr>act_application = Some 12, activity_type = ''status_change'',
           description = ''Status changed from applied to screening'', created_by = Some 7\<rparr>]\<rparr>)"
proof -
  have v: "is_valid_transition (status (demo_application ''applied'')) ''screening''"
    by (simp add: demo_stored is_valid_transition_def get_available_transitions_simps)
  show ?thesis
    unfolding transition_accepted [OF v] demo_save
    by (simp add: demo_stored create_activity_def)
qed

text \<open>
  Claim C4 at a failing input: a stored application in status \<open>saved\<close> with no applied
  date is moved to \<open>applied\<close>. The call succeeds, and the applied date of the object and
  of the stored row is still unset.
\<close>

theorem transition_into_applied_leaves_date_unset:
  "fst (transition (demo_application ''saved'') ''applied'' (Some 7) [] (demo_db ''saved''))
   \<and> status (fst (snd (transition (demo_application ''saved'') ''applied'' (Some 7) []
        (demo_db ''saved'')))) = ''applied''
   \<and> applied_date (fst (snd (transition (demo_application ''saved'') ''applied'' (Some 7) []
        (demo_db ''saved'')))) = None
   \<and> get_application (snd (snd (transition (demo_application ''saved'') ''applied'' (Some 7) []
        (demo_db ''saved'')))) 12
      = Some \<lparr>pk = Some 12, app_user = 7, app_job = 3, status = ''applied'',
               applied_date = None, application_method = ''manual''\<rparr>"
proof -
  have v: "is_valid_transition (status (demo_application ''saved'')) ''applied''"
    by (simp add: demo_stored is_valid_transition_def get_available_transitions_simps)
  show ?thesis
    unfolding transition_accepted [OF v] demo_save
    by (simp add: demo_stored get_application_def demo_application_def)
qed

section \<open>Duplicate detection\<close>

lemma check_duplicate_job:
  "check_duplicate db user (JobObject j) \<longleftrightarrow>
     (\<exists>a \<in> set (applications db). app_user a = user \<and> app_job a = job_pk j)"
  by (simp add: check_duplicate_def list_ex_iff)

lemma check_duplicate_url:
  "check_duplicate db user (UrlString url) \<longleftrightarrow>
     url \<noteq> [] \<and>
     (\<exists>a \<in> set (applications db). app_user a = user \<and>
        (\<exists>j \<in> set (jobs db). job_pk j = app_job a \<and> job_url j = url))"
  by (simp add: check_duplicate_def list_ex_iff)

text \<open>
  Claim C10. The URL-shaped duplicate check answers false for the empty string, for
  every user and every content of the tables, also when the user holds an application
  for a job whose \<open>job_url\<close> is empty; a search result without a \<open>url\<close> key is looked
  up as the empty string and is not reported as a duplicate.
\<close>

theorem check_duplicate_empty_url:
  "check_duplicate db user (UrlString []) = False
   \<and> check_duplicate shapes_db 7 (UrlString (job_url job3)) = False
   \<and> check_duplicate db user (UrlString (found_job_url [(''title'', t)])) = False"
  by (simp add: check_duplicate_url found_job_url_def job3_def)

text \<open>
  Claim C8, as amended. When a user holds an application for a job, the check answers
  true for the \<open>Job\<close> object, and answers true for the job's URL exactly when that URL
  is not empty. For a job the user holds no application for, the check answers false
  for the \<open>Job\<close> object, and answers false for its URL when no job the user has
  applied to carries that URL.
\<close>

theorem check_duplicate_shapes_amended:
  "(a \<in> set (applications db) \<and> app_user a = user \<and> app_job a = job_pk j
      \<and> j \<in> set (jobs db) \<longrightarrow>
        check_duplicate db user (JobObject j)
        \<and> (check_duplicate db user (UrlString (job_url j)) \<longleftrightarrow> job_url j \<noteq> []))
   \<and> ((\<forall>a \<in> set (applications db). app_user a = user \<longrightarrow> app_job a \<noteq> job_pk other) \<longrightarrow>
        \<not> check_duplicate db user (JobObject other))
   \<and> ((\<forall>a \<in> set (applications db). app_user a = user \<longrightarrow>
          (\<forall>j' \<in> set (jobs db). job_pk j' = app_job a \<longrightarrow> job_url j' \<noteq> job_url other)) \<longrightarrow>
        \<not> check_duplicate db user (UrlString (job_url other)))"
proof (intro conjI impI)
  assume h: "a \<in> set (applications db) \<and> app_user a = user \<and> app_job a = job_pk j
      \<and> j \<in> set (jobs db)"
  then show "check_duplicate db user (JobObject j)"
    unfolding check_duplicate_job by blast
  from h show "check_duplicate db user (UrlString (job_url j)) \<longleftrightarrow> job_url j \<noteq> []"
    unfolding check_duplicate_url by metis
next
  assume "\<forall>a \<in> set (applications db). app_user a = user \<longrightarrow> app_job a \<noteq> job_pk other"
  then show "\<not> check_duplicate db user (JobObject other)"
    unfolding check_duplicate_job by blast
next
  assume "\<forall>a \<in> set (applications db). app_user a = user \<longrightarrow>
          (\<forall>j' \<in> set (jobs db). job_pk j' = app_job a \<longrightarrow> job_url j' \<noteq> job_url other)"
  then show "\<not> check_duplicate db user (UrlString (job_url other))"
    unfolding check_duplicate_url by blast
qed

lemma shapes_db_simps:
  "applications shapes_db = [application_for 21 7 3, application_for 22 7 4]"
  "jobs shapes_db = [job3, job4, job5, job6]"
  "app_user (application_for k u j) = u"
  "app_job (application_for k u j) = j"
  "job_pk job3 = 3" "job_pk job4 = 4" "job_pk job5 = 5" "job_pk job6 = 6"
  "job_url job3 = []"
  "job_url job4 = ''https://www.pnet.co.za/jobs/4''"
  "job_url job5 = ''https://www.pnet.co.za/jobs/4''"
  "job_url job6 = ''https://www.pnet.co.za/jobs/6''"
  by (simp_all add: shapes_db_def application_for_def job3_def job4_def job5_def job6_def)

theorem check_duplicate_shapes_amended_witness:
  "application_for 22 7 4 \<in> set (applications shapes_db)
   \<and> app_user (application_for 22 7 4) = 7
   \<and> app_job (application_for 22 7 4) = job_pk job4
   \<and> job4 \<in> set (jobs shapes_db)
   \<and> check_duplicate shapes_db 7 (JobObject job4)
   \<and> check_duplicate shapes_db 7 (UrlString (job_url job4))
   \<and> \<not> check_duplicate shapes_db 7 (JobObject job6)
   \<and> \<not> check_duplicate shapes_db 7 (UrlString (job_url job6))"
  using check_duplicate_shapes_amended
    [of "application_for 22 7 4" shapes_db 7 job4 job6]
  by (simp add: shapes_db_simps)

text \<open>
  Claim C8 as stated fails in both directions: user 7 holds an application for job 3,
  yet the check on the URL of job 3, the empty string, answers false; user 7 holds no
  application for job 5, yet the check on the URL of job 5 answers true.
\<close>

theorem check_duplicate_shapes_counterexample:
  "application_for 21 7 3 \<in> set (applications shapes_db)
   \<and> app_job (application_for 21 7 3) = job_pk job3
   \<and> check_duplicate shapes_db 7 (JobObject job3)
   \<and> \<not> check_duplicate shapes_db 7 (UrlString (job_url job3))
   \<and> job_pk job5 \<noteq> job_pk job3 \<and> job_pk job5 \<noteq> job_pk job4
   \<and> \<not> check_duplicate shapes_db 7 (JobObject job5)
   \<and> check_duplicate shapes_db 7 (UrlString (job_url job5))"
  by (simp add: check_duplicate_job check_duplicate_url shapes_db_simps)

section \<open>The automation task, path by path\<close>



lemma task_body_duplicate:
  assumes "user_id \<in> set (user_rows w)" and "map_of (profile_rows w) user_id = Some ud"
    and "check_duplicate (tables w) user_id (UrlString job_url')"
  shows "task_body w user_id job_url' job_board cv_id dry_run =
     (Inr ((initial_result job_url' job_board)\<lparr>message := ''Already applied to this job''\<rparr>), [])"
  using assms by (simp add: task_body_def)

lemma task_body_daily_limit:
  assumes "user_id \<in> set (user_rows w)" and "map_of (profile_rows w) user_id = Some ud"
    and "\<not> check_duplicate (tables w) user_id (UrlString job_url')"
    and "MAX_DAILY_APPLICATIONS w
           \<le> int (get_daily_application_count (tables w) user_id (time_now w))"
  shows "task_body w user_id job_url' job_board cv_id dry_run =
     (Inr ((initial_result job_url' job_board)\<lparr>message :=
        ''Daily limit reached ('' @ str_int (MAX_DAILY_APPLICATIONS w) @ '' applications)''\<rparr>),
      [])"
  using assms by (simp add: task_body_def Let_def)


lemma task_body_dry_run:
  assumes "user_id \<in> set (user_rows w)" and "map_of (profile_rows w) user_id = Some ud"
    and "\<not> check_duplicate (tables w) user_id (UrlString job_url')"
    and "int (get_daily_application_count (tables w) user_id (time_now w))
           < MAX_DAILY_APPLICATIONS w"
    and "resolve_cv_path w user_id cv_id = Inr cvo" and "\<not> falsy_path cvo"
    and "dry_run"
  shows "task_body w user_id job_url' job_board cv_id dry_run =
     (Inr ((initial_result job_url' job_board)\<lparr>success := True,
        message := ''Dry run completed - no application submitted''\<rparr>), [])"
  using assms by (simp add: task_body_def Let_def)







text \<open>Browser events occur on the last path only.\<close>

lemma run_automation_events:
  "snd (run_automation w handler ud job_url' cv_path result) \<noteq> []"
  by (simp add: run_automation_def split: option.splits sum.splits)

lemma task_body_events_guards:
  assumes "snd (task_body w user_id job_url' job_board cv_id dry_run) \<noteq> []"
  shows "\<not> check_duplicate (tables w) user_id (UrlString job_url')
         \<and> int (get_daily_application_count (tables w) user_id (time_now w))
             < MAX_DAILY_APPLICATIONS w"
  using assms by (auto simp: task_body_def Let_def split: if_splits option.splits sum.splits)

text \<open>How one execution of the task ends, given how its body ends.\<close>

lemma task_of_body_return:
  assumes "task_body w user_id job_url' job_board cv_id dry_run = (Inr r, evs)"
  shows "apply_to_job_task w retries user_id job_url' job_board cv_id dry_run =
     (Returned r, evs, tables w)"
  using assms by (simp add: apply_to_job_task_def)



lemma task_events:
  "fst (snd (apply_to_job_task w retries user_id job_url' job_board cv_id dry_run))
     = snd (task_body w user_id job_url' job_board cv_id dry_run)"
  by (simp add: apply_to_job_task_def Let_def split: prod.splits sum.splits exn.splits)



section \<open>The automation task on concrete worlds\<close>

declare str_nat.simps [simp del]

lemma str_int_examples:
  "str_int 0 = ''0''" "str_int 10 = ''10''"
  by (simp_all add: str_int_def str_nat.simps)

lemma demo_world_simps:
  "user_rows (demo_world t m b outcome) = [7]"
  "map_of (profile_rows (demo_world t m b outcome)) 7 = Some [(''full_name'', ''Thabo Mokoena'')]"
  "tables (demo_world t m b outcome) = t"
  "time_now (demo_world t m b outcome) = 1700000000"
  "MAX_DAILY_APPLICATIONS (demo_world t m b outcome) = m"
  "start_browser (demo_world t m b outcome) = b"
  "apply_to_job (demo_world t m b outcome) handler ud url cv = outcome"
  "resolve_cv_path (demo_world t m b outcome) 7 None = Inr (Some ''cvs/user_7/cv.pdf'')"
  by (simp_all add: demo_world_def resolve_cv_path_def falsy_path_def file_path_of_def)


lemma get_site_handler_pnet: "get_site_handler ''pnet'' = Some PNetHandler"
  by (simp add: get_site_handler_def)


section \<open>Guards, adapter result and retries\<close>

text \<open>
  The guards on the count the code computes. Once the user and the profile are read, a
  duplicate application for the user and the job URL makes the task return the failure
  \<open>Already applied to this job\<close>, and otherwise a value of
  \<open>get_daily_application_count\<close> at or above \<open>MAX_DAILY_APPLICATIONS\<close> makes it
  return the failure \<open>Daily limit reached\<close>; both happen with no browser event,
  whatever the job board, the browser and the site handler are. In every execution, a
  browser event implies that both checks have passed.
\<close>

lemma guard_aborts_precede_browser:
  "(user_id \<in> set (user_rows w) \<and> map_of (profile_rows w) user_id = Some ud
      \<and> check_duplicate (tables w) user_id (UrlString job_url') \<longrightarrow>
      apply_to_job_task w retries user_id job_url' job_board cv_id dry_run =
        (Returned \<lparr>success = False, res_job_url = job_url', res_job_board = job_board,
                   message = ''Already applied to this job''\<rparr>,
         [], tables w))
   \<and> (user_id \<in> set (user_rows w) \<and> map_of (profile_rows w) user_id = Some ud
      \<and> \<not> check_duplicate (tables w) user_id (UrlString job_url')
      \<and> MAX_DAILY_APPLICATIONS w
           \<le> int (get_daily_application_count (tables w) user_id (time_now w)) \<longrightarrow>
      apply_to_job_task w retries user_id job_url' job_board cv_id dry_run =
        (Returned \<lparr>success = False, res_job_url = job_url', res_job_board = job_board,
                   message = ''Daily limit reached ('' @ str_int (MAX_DAILY_APPLICATIONS w)
                             @ '' applications)''\<rparr>,
         [], tables w))
   \<and> (fst (snd (apply_to_job_task w retries user_id job_url' job_board cv_id dry_run)) \<noteq> [] \<longrightarrow>
        \<not> check_duplicate (tables w) user_id (UrlString job_url')
        \<and> int (get_daily_application_count (tables w) user_id (time_now w))
             < MAX_DAILY_APPLICATIONS w)"
proof (intro conjI impI)
  assume "user_id \<in> set (user_rows w) \<and> map_of (profile_rows w) user_id = Some ud
      \<and> check_duplicate (tables w) user_id (UrlString job_url')"
  then have "task_body w user_id job_url' job_board cv_id dry_run =
     (Inr ((initial_result job_url' job_board)\<lparr>message := ''Already applied to this job''\<rparr>), [])"
    by (intro task_body_duplicate) simp_all
  then show "apply_to_job_task w retries user_id job_url' job_board cv_id dry_run =
        (Returned \<lparr>success = False, res_job_url = job_url', res_job_board = job_board,
                   message = ''Already applied to this job''\<rparr>,
         [], tables w)"
    by (simp add: task_of_body_return initial_result_def)
next
  assume "user_id \<in> set (user_rows w) \<and> map_of (profile_rows w) user_id = Some ud
      \<and> \<not> check_duplicate (tables w) user_id (UrlString job_url')
      \<and> MAX_DAILY_APPLICATIONS w
           \<le> int (get_daily_application_count (tables w) user_id (time_now w))"
  then have "task_body w user_id job_url' job_board cv_id dry_run =
     (Inr ((initial_result job_url' job_board)\<lparr>message :=
        ''Daily limit reached ('' @ str_int (MAX_DAILY_APPLICATIONS w) @ '' applications)''\<rparr>),
      [])"
    by (intro task_body_daily_limit) simp_all
  then show "apply_to_job_task w retries user_id job_url' job_board cv_id dry_run =
        (Returned \<lparr>success = False, res_job_url = job_url', res_job_board = job_board,
                   message = ''Daily limit reached ('' @ str_int (MAX_DAILY_APPLICATIONS w)
                             @ '' applications)''\<rparr>,
         [], tables w)"
    by (simp add: task_of_body_return initial_result_def)
next
  assume "fst (snd (apply_to_job_task w retries user_id job_url' job_board cv_id dry_run)) \<noteq> []"
  then have e: "snd (task_body w user_id job_url' job_board cv_id dry_run) \<noteq> []"
    by (simp add: task_events)
  from task_body_events_guards [OF e]
  show "\<not> check_duplicate (tables w) user_id (UrlString job_url')"
    and "int (get_daily_application_count (tables w) user_id (time_now w))
             < MAX_DAILY_APPLICATIONS w"
    by simp_all
qed

text \<open>
  The count of the code against the count of the specification, between 22:00 and 24:00
  UTC: the application of \<open>capped_db\<close> was stamped on the current day, in UTC and in
  Johannesburg alike, and the code does not count it.
\<close>

lemma capped_counts:
  "utc_date 1699999940 = utc_date 1700000000"
  "local_date 1699999940 = local_date 1700000000"
  "spec_daily_automated_count capped_db 7 (local_date 1700000000) = 1"
  "get_daily_application_count capped_db 7 1700000000 = 0"
  "\<not> check_duplicate capped_db 7 (UrlString ''https://www.pnet.co.za/jobs/4'')"
  by (simp_all add: utc_date_def local_date_def spec_daily_automated_count_def
      get_daily_application_count_def capped_db_def check_duplicate_url job6_def)

text \<open>
  Claim C6 at a failing input. The daily maximum is 1 and user 7 has made one automated
  application today, one minute ago, so the daily automated count equals the maximum.
  The task, run for another job, does not return the failure \<open>Daily limit reached\<close>:
  \<open>get_daily_application_count\<close> compares the UTC date of the clock with the
  Johannesburg date of the stamp and answers 0, and the task starts the browser and
  submits the application.
\<close>

theorem daily_limit_missed_near_midnight:
  "time_now (demo_world capped_db 1 None (Inr True)) = 1700000000
   \<and> MAX_DAILY_APPLICATIONS (demo_world capped_db 1 None (Inr True)) = 1
   \<and> spec_daily_automated_count (tables (demo_world capped_db 1 None (Inr True))) 7
        (local_date 1700000000) = 1
   \<and> get_daily_application_count (tables (demo_world capped_db 1 None (Inr True))) 7
        1700000000 = 0
   \<and> apply_to_job_task (demo_world capped_db 1 None (Inr True)) 0 7
        ''https://www.pnet.co.za/jobs/4'' ''pnet'' None False =
        (Returned \<lparr>success = True, res_job_url = ''https://www.pnet.co.za/jobs/4'',
                   res_job_board = ''pnet'',
                   message = ''Application submitted successfully''\<rparr>,
         [BrowserStarted,
          ApplyToJobCalled PNetHandler ''https://www.pnet.co.za/jobs/4'' ''cvs/user_7/cv.pdf'',
          BrowserClosed],
         capped_db)"
  by (simp add: apply_to_job_task_def task_body_def run_automation_def Let_def
      initial_result_def demo_world_simps capped_counts get_site_handler_pnet falsy_path_def)




section \<open>Retries\<close>


















section \<open>The CAPTCHA wait\<close>









end
